theory Spec2Isabelle
  imports Complex_Main "HOL-Library.Sublist"
begin

section \<open>Python values used by gui\_app.py\<close>

subsection \<open>Floats\<close>

text \<open>
  A Python float is modelled by the number it denotes: a finite value is an exact
  rational (binary rounding, overflow and the sign of zero are abstracted away),
  and the three non-finite values are kept apart, because \<^verbatim>\<open>float("nan")\<close> and
  \<^verbatim>\<open>float("inf")\<close> succeed in Python.
\<close>

datatype pyfloat = Fin rat | PInf | NInf | NaN

text \<open>Float addition, as \<^verbatim>\<open>a + b\<close> of two Python floats.\<close>

fun fadd :: "pyfloat \<Rightarrow> pyfloat \<Rightarrow> pyfloat" where
  "fadd (Fin a) (Fin b) = Fin (a + b)"
| "fadd NaN _ = NaN"
| "fadd _ NaN = NaN"
| "fadd PInf NInf = NaN"
| "fadd NInf PInf = NaN"
| "fadd PInf _ = PInf"
| "fadd _ PInf = PInf"
| "fadd NInf _ = NInf"
| "fadd _ NInf = NInf"

text \<open>\<^verbatim>\<open>x / 2\<close> on a float.\<close>

fun fhalf :: "pyfloat \<Rightarrow> pyfloat" where
  "fhalf (Fin a) = Fin (a / 2)"
| "fhalf PInf = PInf"
| "fhalf NInf = NInf"
| "fhalf NaN = NaN"

subsection \<open>Strings\<close>

text \<open>
  Strings are lists of characters; the model covers ASCII text, which is what the
  device protocol sends. \<open>is_space\<close> is the ASCII part of Python's \<^verbatim>\<open>str.isspace\<close>:
  tab, line feed, vertical tab, form feed, carriage return, the four separators
  0x1c to 0x1f and the blank.
\<close>

definition is_space :: "char \<Rightarrow> bool" where
  "is_space c = (of_char c \<in> {9::nat, 10, 11, 12, 13, 28, 29, 30, 31, 32})"

text \<open>\<^verbatim>\<open>s.strip()\<close>\<close>

definition py_strip :: "string \<Rightarrow> string" where
  "py_strip s = rev (dropWhile is_space (rev (dropWhile is_space s)))"

text \<open>\<^verbatim>\<open>s.startswith(p)\<close>\<close>

fun startswith :: "string \<Rightarrow> string \<Rightarrow> bool" where
  "startswith s [] = True"
| "startswith [] (p # ps) = False"
| "startswith (c # cs) (p # ps) = (c = p \<and> startswith cs ps)"

text \<open>\<^verbatim>\<open>p in s\<close> for strings: \<open>p\<close> occurs in \<open>s\<close> as a contiguous substring.\<close>

fun py_in :: "string \<Rightarrow> string \<Rightarrow> bool" where
  "py_in p [] = (p = [])"
| "py_in p (c # cs) = (startswith (c # cs) p \<or> py_in p cs)"

text \<open>
  \<^verbatim>\<open>s.split(sep)\<close> with a separator: the pieces between the non-overlapping
  occurrences of \<open>sep\<close>, found from the left. \<open>split_from sep acc s\<close> carries the
  current piece reversed in \<open>acc\<close>. Python raises ValueError on an empty separator;
  the source only splits on \<^verbatim>\<open>"\n"\<close> and \<^verbatim>\<open>"ANGLE:"\<close>, and here an
  empty separator never matches.
\<close>

function split_from :: "string \<Rightarrow> string \<Rightarrow> string \<Rightarrow> string list" where
  "split_from sep acc s =
     (if sep \<noteq> [] \<and> s \<noteq> [] \<and> startswith s sep
      then rev acc # split_from sep [] (drop (length sep) s)
      else (case s of
              [] \<Rightarrow> [rev acc]
            | c # cs \<Rightarrow> split_from sep (c # acc) cs))"
  by pat_completeness auto
termination
  by (relation "measure (\<lambda>(sep, acc, s). length s)") auto

declare split_from.simps [simp del]

definition py_split :: "string \<Rightarrow> string \<Rightarrow> string list" where
  "py_split s sep = split_from sep [] s"

subsection \<open>float(text)\<close>

text \<open>
  Python's \<^verbatim>\<open>float(s)\<close> on a string, following the grammar of the language
  reference: surrounding whitespace is dropped; then an optional sign; then
  \<^verbatim>\<open>inf\<close>, \<^verbatim>\<open>infinity\<close> or \<^verbatim>\<open>nan\<close> in any letter case, or a decimal
  number \<^verbatim>\<open>digitpart [. [digitpart]] | . digitpart\<close> with an optional exponent
  \<^verbatim>\<open>(e|E) [sign] digitpart\<close>, where a digitpart is a run of digits that may
  hold single underscores between digits. \<open>None\<close> stands for ValueError.
\<close>

definition is_digit :: "char \<Rightarrow> bool" where
  "is_digit c = (48 \<le> (of_char c :: nat) \<and> (of_char c :: nat) \<le> 57)"

definition digit_val :: "char \<Rightarrow> nat" where
  "digit_val c = of_char c - 48"

definition digit_char :: "nat \<Rightarrow> char" where
  "digit_char d = char_of (48 + d)"

text \<open>\<open>digitpart_from prev s\<close>: the digits of \<open>s\<close> with the underscores removed, if
  \<open>s\<close> continues a digitpart whose previous character was a digit (\<open>prev\<close>) or
  was not.\<close>

fun digitpart_from :: "bool \<Rightarrow> string \<Rightarrow> string option" where
  "digitpart_from prev [] = (if prev then Some [] else None)"
| "digitpart_from prev (c # cs) =
     (if is_digit c then map_option ((#) c) (digitpart_from True cs)
      else if c = CHR ''_'' \<and> prev then digitpart_from False cs
      else None)"

definition digitpart :: "string \<Rightarrow> string option" where
  "digitpart s = digitpart_from False s"

definition nat_of_digits :: "string \<Rightarrow> nat" where
  "nat_of_digits ds = foldl (\<lambda>a c. 10 * a + digit_val c) 0 ds"

text \<open>An optional sign: the sign found (True for minus) and the rest.\<close>

fun take_sign :: "string \<Rightarrow> bool \<times> string" where
  "take_sign [] = (False, [])"
| "take_sign (c # cs) =
     (if c = CHR ''-'' then (True, cs)
      else if c = CHR ''+'' then (False, cs)
      else (False, c # cs))"

definition is_exp_mark :: "char \<Rightarrow> bool" where
  "is_exp_mark c = (c = CHR ''e'' \<or> c = CHR ''E'')"

text \<open>The exponent after the mark: an optional sign and a digitpart.\<close>

definition parse_exponent :: "string \<Rightarrow> int option" where
  "parse_exponent s =
     (case take_sign s of
        (neg, ds) \<Rightarrow>
          (case digitpart ds of
             None \<Rightarrow> None
           | Some d \<Rightarrow> Some (if neg then - int (nat_of_digits d) else int (nat_of_digits d))))"

text \<open>The mantissa: integer part and fraction part as digit strings.\<close>

definition parse_mantissa :: "string \<Rightarrow> (string \<times> string) option" where
  "parse_mantissa s =
     (let ip = takeWhile (\<lambda>c. c \<noteq> CHR ''.'') s;
          r = dropWhile (\<lambda>c. c \<noteq> CHR ''.'') s
      in if r = [] then map_option (\<lambda>i. (i, [])) (digitpart ip)
         else
           (let fp = tl r
            in if ip = [] then map_option (\<lambda>f. ([], f)) (digitpart fp)
               else if fp = [] then map_option (\<lambda>i. (i, [])) (digitpart ip)
               else (case (digitpart ip, digitpart fp) of
                       (Some i, Some f) \<Rightarrow> Some (i, f)
                     | _ \<Rightarrow> None)))"

definition pow10 :: "int \<Rightarrow> rat" where
  "pow10 e = (if 0 \<le> e then 10 ^ nat e else 1 / 10 ^ nat (- e))"

definition parse_number :: "string \<Rightarrow> rat option" where
  "parse_number s =
     (let m = takeWhile (\<lambda>c. \<not> is_exp_mark c) s;
          r = dropWhile (\<lambda>c. \<not> is_exp_mark c) s
      in case parse_mantissa m of
           None \<Rightarrow> None
         | Some (i, f) \<Rightarrow>
             (let v = (of_nat (nat_of_digits i) * 10 ^ length f + of_nat (nat_of_digits f))
                        / 10 ^ length f
              in if r = [] then Some v
                 else (case parse_exponent (tl r) of
                         None \<Rightarrow> None
                       | Some e \<Rightarrow> Some (v * pow10 e))))"

definition lower_char :: "char \<Rightarrow> char" where
  "lower_char c =
     (if 65 \<le> (of_char c :: nat) \<and> (of_char c :: nat) \<le> 90
      then char_of ((of_char c :: nat) + 32) else c)"

definition py_float :: "string \<Rightarrow> pyfloat option" where
  "py_float s =
     (case take_sign (py_strip s) of
        (neg, body) \<Rightarrow>
          (let low = map lower_char body
           in if low = ''inf'' \<or> low = ''infinity'' then Some (if neg then NInf else PInf)
              else if low = ''nan'' then Some NaN
              else (case parse_number body of
                      None \<Rightarrow> None
                    | Some v \<Rightarrow> Some (Fin (if neg then - v else v)))))"

subsection \<open>Formatting with one decimal\<close>

text \<open>
  \<^verbatim>\<open>f"{x:.1f}"\<close>: the decimal rendering of \<open>x\<close> with one digit after the point,
  rounded to the nearest tenth, a tie going to the even digit; a negative value
  keeps its minus sign even when it rounds to zero.
\<close>

function dec_digits :: "nat \<Rightarrow> string" where
  "dec_digits n =
     (if n < 10 then [digit_char n] else dec_digits (n div 10) @ [digit_char (n mod 10)])"
  by pat_completeness auto
termination
  by (relation "measure id") auto

declare dec_digits.simps [simp del]

definition round_half_even :: "rat \<Rightarrow> nat" where
  "round_half_even q =
     (let f = nat \<lfloor>q\<rfloor>; d = q - of_int \<lfloor>q\<rfloor>
      in if d < 1 / 2 then f
         else if 1 / 2 < d then Suc f
         else if even f then f else Suc f)"

definition tenths :: "rat \<Rightarrow> nat" where
  "tenths r = round_half_even (\<bar>r\<bar> * 10)"

fun fmt1 :: "pyfloat \<Rightarrow> string" where
  "fmt1 (Fin r) =
     (if r < 0 then ''-'' else '''') @ dec_digits (tenths r div 10) @ ''.''
       @ [digit_char (tenths r mod 10)]"
| "fmt1 PInf = ''inf''"
| "fmt1 NInf = ''-inf''"
| "fmt1 NaN = ''nan''"


section \<open>The ROM calculator\<close>

text \<open>
  An angle entry is a text widget; the model keeps its text. The eight entries of a
  side are a list, in the order of the movement table. \<open>safe_float\<close> is
  \<^verbatim>\<open>ROMCalculator.safe_float\<close>: the text as a float, 0.0 when \<^verbatim>\<open>float\<close>
  raises.
\<close>

definition safe_float :: "string \<Rightarrow> pyfloat" where
  "safe_float text = (case py_float text of Some v \<Rightarrow> v | None \<Rightarrow> Fin 0)"

text \<open>The dictionary returned by \<^verbatim>\<open>calculate_rom_side\<close>, one field per key.\<close>

record rom =
  rom_wrist :: pyfloat
  rom_forearm :: pyfloat
  rom_elbow :: pyfloat
  rom_wrist_deviation :: pyfloat

text \<open>
  \<^verbatim>\<open>ROMCalculator.calculate_rom_side\<close>. It indexes the list at 0 to 7, so a
  list with fewer than eight entries raises IndexError: \<open>None\<close>.
\<close>

definition calculate_rom_side :: "string list \<Rightarrow> rom option" where
  "calculate_rom_side entries_list =
     (if length entries_list < 8 then None
      else Some
        \<lparr> rom_wrist = fadd (safe_float (entries_list ! 0)) (safe_float (entries_list ! 1)),
          rom_forearm = fadd (safe_float (entries_list ! 2)) (safe_float (entries_list ! 3)),
          rom_elbow = fhalf (fadd (safe_float (entries_list ! 4)) (safe_float (entries_list ! 5))),
          rom_wrist_deviation =
            fadd (safe_float (entries_list ! 6)) (safe_float (entries_list ! 7)) \<rparr>)"

section \<open>The angle parser\<close>

text \<open>
  \<open>parse_live\<close> is the inner \<^verbatim>\<open>try: angle = float(line) except ValueError\<close> of
  \<^verbatim>\<open>read_serial_live\<close>, applied to a line that the caller has already stripped.
\<close>

definition parse_live :: "string \<Rightarrow> pyfloat option" where
  "parse_live line = py_float line"

text \<open>
  \<open>parse_final\<close> is the first half of \<^verbatim>\<open>process_final_serial_data\<close>: the value
  of \<^verbatim>\<open>last_valid_angle\<close> after the loop over the reversed lines.
  \<open>tagged_angle\<close> is the loop body on one line: \<open>Some\<close> is the \<^verbatim>\<open>break\<close>,
  \<open>None\<close> is going on to the next line (the marker is absent, or IndexError or
  ValueError was caught and the loop continues).
\<close>

definition tagged_angle :: "string \<Rightarrow> pyfloat option" where
  "tagged_angle line =
     (if py_in ''ANGLE:'' line
      then (case py_split line ''ANGLE:'' of
              _ # angle_str # _ \<Rightarrow> py_float (py_strip angle_str)
            | _ \<Rightarrow> None)
      else None)"

fun scan_lines :: "string list \<Rightarrow> pyfloat option" where
  "scan_lines [] = None"
| "scan_lines (line # rest) =
     (case tagged_angle line of
        Some v \<Rightarrow> Some v
      | None \<Rightarrow> scan_lines rest)"

definition parse_final :: "string \<Rightarrow> pyfloat option" where
  "parse_final buffer = scan_lines (rev (py_split (py_strip buffer) [CHR 10]))"

section \<open>The application state\<close>

datatype side = Unaffected | Affected

datatype read_mode = Measurement | Calibration

text \<open>
  The error dialogs of the source (\<^verbatim>\<open>messagebox.showerror\<close>), by the text they show:
  "Bluetooth not connected!", "No movement selected!", "No valid ANGLE data found!",
  "No previous movement to redo!", "ROM update error", "Processing error".
\<close>

datatype message =
    NotConnected
  | NoSelection
  | NoAngleData
  | NoPriorMovement
  | RomUpdateError
  | ProcessingError

text \<open>
  The serial channel: whether it is open, the lines waiting in its input buffer
  (what successive \<^verbatim>\<open>readline\<close> calls return, without the line terminator), and
  the bytes written to the device so far. An open channel is taken not to fail.
\<close>

record serial_port =
  is_open :: bool
  in_lines :: "string list"
  written :: string

text \<open>
  The fields of \<^verbatim>\<open>App\<close> that the measurement logic reads or writes. A gauge
  canvas is modelled by the angle drawn on it, the live canvas by the sequence of
  angles drawn on it (one per call of \<^verbatim>\<open>update_live_angle\<close>), the dialogs by the
  sequence of messages shown, and the timer callbacks registered with
  \<^verbatim>\<open>self.after(50, self.read_serial_live)\<close> by their number.
\<close>

record app =
  ser :: "serial_port option"
  movement_letter :: "string option"
  selected_movement :: "nat option"
  selected_side :: "side option"
  serial_read_start_time :: "rat option"
  serial_full_response :: string
  serial_read_duration :: rat
  serial_read_mode :: read_mode
  unaffected_angle_entries :: "string list"
  affected_angle_entries :: "string list"
  unaffected_rom_canvases :: "pyfloat list"
  affected_rom_canvases :: "pyfloat list"
  live_canvas :: "pyfloat list"
  serial_output_box :: string
  messages :: "message list"
  after_queue :: nat

text \<open>The state after \<^verbatim>\<open>App.__init__\<close> and \<^verbatim>\<open>setup_ui\<close>: eight empty entries
  and four gauges at 0 on each side, times in seconds, the read window in milliseconds.\<close>

definition init_app :: app where
  "init_app =
     \<lparr> ser = None,
       movement_letter = None,
       selected_movement = None,
       selected_side = None,
       serial_read_start_time = None,
       serial_full_response = [],
       serial_read_duration = 7000,
       serial_read_mode = Measurement,
       unaffected_angle_entries = replicate 8 [],
       affected_angle_entries = replicate 8 [],
       unaffected_rom_canvases = replicate 4 (Fin 0),
       affected_rom_canvases = replicate 4 (Fin 0),
       live_canvas = [],
       serial_output_box = ''Awaiting Movement Selection...'' @ [CHR 10],
       messages = [],
       after_queue = 0 \<rparr>"

text \<open>The movement table of \<^verbatim>\<open>setup_sidebar\<close>: name and command letter.\<close>

definition movements :: "(string \<times> string) list" where
  "movements =
     [(''Wrist Flexion'', ''f''),
      (''Wrist Extension'', ''e''),
      (''Forearm Supination'', ''s''),
      (''Forearm Pronation'', ''p''),
      (''Elbow Flexion'', ''x''),
      (''Elbow Extension'', ''y''),
      (''Radial Deviation'', ''z''),
      (''Ulnar Deviation'', ''z'')]"

definition showerror :: "message \<Rightarrow> app \<Rightarrow> app" where
  "showerror m s = s\<lparr>messages := messages s @ [m]\<rparr>"

text \<open>\<^verbatim>\<open>self.ser is None or not self.ser.is_open\<close> is \<open>\<not> connected s\<close>.\<close>

definition connected :: "app \<Rightarrow> bool" where
  "connected s = (case ser s of None \<Rightarrow> False | Some p \<Rightarrow> is_open p)"

text \<open>\<^verbatim>\<open>connect_bluetooth\<close> when the port opens.\<close>

definition connect_bluetooth :: "app \<Rightarrow> app" where
  "connect_bluetooth s = s\<lparr>ser := Some \<lparr>is_open = True, in_lines = [], written = []\<rparr>\<rparr>"

text \<open>The device sends lines: they wait in the input buffer of an open channel.\<close>

definition device_sends :: "string list \<Rightarrow> app \<Rightarrow> app" where
  "device_sends ls s =
     (case ser s of
        None \<Rightarrow> s
      | Some p \<Rightarrow> if is_open p then s\<lparr>ser := Some (p\<lparr>in_lines := in_lines p @ ls\<rparr>)\<rparr> else s)"

text \<open>\<^verbatim>\<open>select_movement\<close>: the three assignments (the rest loads an image).\<close>

definition select_movement :: "string \<Rightarrow> string \<Rightarrow> nat \<Rightarrow> side \<Rightarrow> app \<Rightarrow> app" where
  "select_movement letter movement_name idx sd s =
     s\<lparr>movement_letter := Some letter, selected_movement := Some idx, selected_side := Some sd\<rparr>"

text \<open>\<^verbatim>\<open>update_live_angle\<close>\<close>

definition update_live_angle :: "pyfloat \<Rightarrow> app \<Rightarrow> app" where
  "update_live_angle angle s = s\<lparr>live_canvas := live_canvas s @ [angle]\<rparr>"

section \<open>ROM display\<close>

text \<open>
  \<open>set_gauges cs i vs\<close> performs \<^verbatim>\<open>update_rom_gauge(canvases[i], v)\<close> for the
  values \<open>vs\<close> at \<open>i\<close>, \<open>i + 1\<close>, ... in turn and stops at the first index out of
  range (IndexError), keeping what was drawn before; the flag tells whether all
  were drawn.
\<close>

fun set_gauges :: "pyfloat list \<Rightarrow> nat \<Rightarrow> pyfloat list \<Rightarrow> pyfloat list \<times> bool" where
  "set_gauges cs i [] = (cs, True)"
| "set_gauges cs i (v # vs) =
     (if i < length cs then set_gauges (cs[i := v]) (Suc i) vs else (cs, False))"

definition rom_values :: "rom \<Rightarrow> pyfloat list" where
  "rom_values r = [rom_wrist r, rom_forearm r, rom_elbow r, rom_wrist_deviation r]"

text \<open>\<^verbatim>\<open>ROMCalculator.update_rom_display\<close>: the unaffected side, then the affected
  side; any exception ends it with the dialog "ROM update error".\<close>

definition update_rom_display :: "app \<Rightarrow> app" where
  "update_rom_display s =
     (case calculate_rom_side (unaffected_angle_entries s) of
        None \<Rightarrow> showerror RomUpdateError s
      | Some unaffected_roms \<Rightarrow>
          (case set_gauges (unaffected_rom_canvases s) 0 (rom_values unaffected_roms) of
             (cu, ok_u) \<Rightarrow>
               (let s1 = s\<lparr>unaffected_rom_canvases := cu\<rparr>
                in if \<not> ok_u then showerror RomUpdateError s1
                   else
                     (case calculate_rom_side (affected_angle_entries s1) of
                        None \<Rightarrow> showerror RomUpdateError s1
                      | Some affected_roms \<Rightarrow>
                          (case set_gauges (affected_rom_canvases s1) 0 (rom_values affected_roms) of
                             (ca, ok_a) \<Rightarrow>
                               (let s2 = s1\<lparr>affected_rom_canvases := ca\<rparr>
                                in if \<not> ok_a then showerror RomUpdateError s2 else s2))))))"

section \<open>Finalising a measurement\<close>

text \<open>
  \<^verbatim>\<open>process_final_serial_data\<close>. Without a value: the dialog and return. With a
  value: the entry of the selected side at the selected movement gets the value
  formatted with one decimal, the ROM display is refreshed, then the live canvas
  shows the value. No selected side is the silent \<^verbatim>\<open>else: return\<close>; no selected
  movement (TypeError) or an index out of range (IndexError) ends in the dialog
  "Processing error".
\<close>

definition process_final_serial_data :: "app \<Rightarrow> app" where
  "process_final_serial_data s =
     (case parse_final (serial_full_response s) of
        None \<Rightarrow> showerror NoAngleData s
      | Some last_valid_angle \<Rightarrow>
          (case selected_side s of
             None \<Rightarrow> s
           | Some sd \<Rightarrow>
               (case selected_movement s of
                  None \<Rightarrow> showerror ProcessingError s
                | Some i \<Rightarrow>
                    (case sd of
                       Unaffected \<Rightarrow>
                         if i < length (unaffected_angle_entries s)
                         then update_live_angle last_valid_angle
                                (update_rom_display
                                   (s\<lparr>unaffected_angle_entries :=
                                        (unaffected_angle_entries s)[i := fmt1 last_valid_angle]\<rparr>))
                         else showerror ProcessingError s
                     | Affected \<Rightarrow>
                         if i < length (affected_angle_entries s)
                         then update_live_angle last_valid_angle
                                (update_rom_display
                                   (s\<lparr>affected_angle_entries :=
                                        (affected_angle_entries s)[i := fmt1 last_valid_angle]\<rparr>))
                         else showerror ProcessingError s))))"

section \<open>Polling\<close>

text \<open>
  The body of the \<^verbatim>\<open>while self.ser.in_waiting\<close> loop for the waiting lines in
  turn: the stripped line and a newline go to the accumulated response and to the
  output box, and a line that parses as a float is drawn on the live canvas.
\<close>

fun drain_lines :: "string list \<Rightarrow> app \<Rightarrow> app" where
  "drain_lines [] s = s"
| "drain_lines (raw # rest) s =
     (let line = py_strip raw;
          s1 = s\<lparr>serial_full_response := serial_full_response s @ line @ [CHR 10],
                 serial_output_box := serial_output_box s @ line @ [CHR 10]\<rparr>
      in drain_lines rest
           (case parse_live line of
              Some angle \<Rightarrow> update_live_angle angle s1
            | None \<Rightarrow> s1))"

text \<open>
  \<^verbatim>\<open>read_serial_live\<close>, with \<open>now\<close> the value of \<^verbatim>\<open>time.time()\<close> at the timer
  check. A start time that was never set makes the subtraction raise TypeError
  outside the \<^verbatim>\<open>try\<close>: the callback ends there.
\<close>

definition read_serial_live :: "rat \<Rightarrow> app \<Rightarrow> app" where
  "read_serial_live now s =
     (case ser s of
        None \<Rightarrow> s
      | Some p \<Rightarrow>
          if \<not> is_open p then s
          else
            (let s1 = drain_lines (in_lines p) (s\<lparr>ser := Some (p\<lparr>in_lines := []\<rparr>)\<rparr>)
             in case serial_read_start_time s1 of
                  None \<Rightarrow> s1
                | Some t0 \<Rightarrow>
                    if (now - t0) * 1000 \<ge> serial_read_duration s1
                    then (if serial_read_mode s1 = Measurement
                          then process_final_serial_data s1 else s1)
                    else s1\<lparr>after_queue := Suc (after_queue s1)\<rparr>))"

text \<open>The event loop runs one registered timer callback at time \<open>now\<close>.\<close>

definition timer_fires :: "rat \<Rightarrow> app \<Rightarrow> app" where
  "timer_fires now s =
     (if after_queue s = 0 then s
      else read_serial_live now (s\<lparr>after_queue := after_queue s - 1\<rparr>))"

section \<open>Commands\<close>

text \<open>
  \<^verbatim>\<open>start_measurement\<close>; \<open>t_start\<close> is \<^verbatim>\<open>time.time()\<close> when the start time is
  recorded and \<open>now\<close> the clock at the timer check of the first
  \<^verbatim>\<open>read_serial_live\<close>, which it calls directly.
\<close>

definition start_measurement :: "rat \<Rightarrow> rat \<Rightarrow> app \<Rightarrow> app" where
  "start_measurement t_start now s =
     (case ser s of
        None \<Rightarrow> showerror NotConnected s
      | Some p \<Rightarrow>
          if \<not> is_open p then showerror NotConnected s
          else
            (case (movement_letter s, selected_movement s, selected_side s) of
               (Some letter, Some _, Some _) \<Rightarrow>
                 read_serial_live now
                   (s\<lparr>ser := Some (p\<lparr>in_lines := [], written := written p @ letter\<rparr>),
                      serial_output_box := [],
                      serial_read_start_time := Some t_start,
                      serial_full_response := [],
                      serial_read_mode := Measurement\<rparr>)
             | _ \<Rightarrow> showerror NoSelection s))"

text \<open>\<^verbatim>\<open>calibrate\<close>\<close>

definition calibrate :: "rat \<Rightarrow> rat \<Rightarrow> app \<Rightarrow> app" where
  "calibrate t_start now s =
     (case ser s of
        None \<Rightarrow> showerror NotConnected s
      | Some p \<Rightarrow>
          if \<not> is_open p then showerror NotConnected s
          else
            read_serial_live now
              (s\<lparr>ser := Some (p\<lparr>in_lines := [], written := written p @ ''r''\<rparr>),
                 serial_output_box := [],
                 serial_read_start_time := Some t_start,
                 serial_full_response := [],
                 serial_read_mode := Calibration\<rparr>))"

text \<open>\<^verbatim>\<open>redo_last_measurement\<close>\<close>

definition redo_last_measurement :: "rat \<Rightarrow> rat \<Rightarrow> app \<Rightarrow> app" where
  "redo_last_measurement t_start now s =
     (if movement_letter s = None then showerror NoPriorMovement s
      else start_measurement t_start now s)"

text \<open>
  \<^verbatim>\<open>clear_all_measurements\<close>. Each loop runs over
  \<^verbatim>\<open>zip(entries, canvases)\<close>: \<open>clear_zip\<close> empties the entry and draws 0 on the
  gauge pair by pair and stops when either list ends, leaving the rest as it was.
  Then the live canvas shows 0 and the output box is emptied.
\<close>

fun clear_zip :: "string list \<Rightarrow> pyfloat list \<Rightarrow> string list \<times> pyfloat list" where
  "clear_zip (entry # entries) (canvas # canvases) =
     (case clear_zip entries canvases of (es, cs) \<Rightarrow> ([] # es, Fin 0 # cs))"
| "clear_zip entries canvases = (entries, canvases)"

definition clear_all_measurements :: "app \<Rightarrow> app" where
  "clear_all_measurements s =
     (case clear_zip (unaffected_angle_entries s) (unaffected_rom_canvases s) of
        (ue, uc) \<Rightarrow>
          (case clear_zip (affected_angle_entries s) (affected_rom_canvases s) of
             (ae, ac) \<Rightarrow>
               (update_live_angle (Fin 0)
                  (s\<lparr>unaffected_angle_entries := ue, unaffected_rom_canvases := uc,
                     affected_angle_entries := ae, affected_rom_canvases := ac\<rparr>))
                 \<lparr>serial_output_box := []\<rparr>))"

section \<open>Notions used to state the properties\<close>

text \<open>
  The final parse as the specification words it: scanning from the last line to the
  first, the first line that contains the marker decides; the result is the float
  after the marker on that line, and nothing when that text does not parse or no
  line contains the marker.
\<close>

fun scan_first_tagged :: "string list \<Rightarrow> pyfloat option" where
  "scan_first_tagged [] = None"
| "scan_first_tagged (line # rest) =
     (if py_in ''ANGLE:'' line then tagged_angle line else scan_first_tagged rest)"

definition parse_final_spec :: "string \<Rightarrow> pyfloat option" where
  "parse_final_spec buffer = scan_first_tagged (rev (py_split (py_strip buffer) [CHR 10]))"

text \<open>
  The characters that can occur in a string that \<^verbatim>\<open>float\<close> accepts: whitespace,
  digits, the signs, the point, the underscore, the exponent marks, and the letters of
  \<^verbatim>\<open>inf\<close>, \<^verbatim>\<open>infinity\<close> and \<^verbatim>\<open>nan\<close> in either case.
\<close>

definition float_char :: "char \<Rightarrow> bool" where
  "float_char c =
     (is_digit c \<or> is_space c \<or> c \<in> set ''+-._eE'' \<or> lower_char c \<in> set ''infaty'')"

text \<open>The lines of the accumulated response, as the final parse splits them.\<close>

definition response_lines :: "string \<Rightarrow> string list" where
  "response_lines buffer = py_split (py_strip buffer) [CHR 10]"


text \<open>The widget lists as \<^verbatim>\<open>setup_ui\<close> builds them: eight entries and four gauges
  per side.\<close>

definition widgets_ok :: "app \<Rightarrow> bool" where
  "widgets_ok s =
     (length (unaffected_angle_entries s) = 8 \<and> length (affected_angle_entries s) = 8 \<and>
      length (unaffected_rom_canvases s) = 4 \<and> length (affected_rom_canvases s) = 4)"


text \<open>
  The application connected, with the button "Wrist Flexion", unaffected, pressed;
  then Start pressed at time 0.
\<close>

definition ready_app :: app where
  "ready_app = select_movement ''f'' ''Wrist Flexion'' 0 Unaffected (connect_bluetooth init_app)"

definition started_app :: app where
  "started_app = start_measurement 0 0 ready_app"



text \<open>
  Start pressed again at 1.02 s, while the session started at 0 is still polling:
  the callback chain of the first session (due at multiples of 50 ms) and the chain
  of the second (due at 1.02 s plus multiples of 50 ms) are both registered. The
  device sends "ANGLE:10.0"; the first chain's callback at 8.00 s drains it, the
  second chain's callback at 8.02 s meets the deadline of the second session. The
  device then sends "ANGLE:20.0" and the first chain's callback runs at 8.05 s.
\<close>

definition restarted_app :: app where
  "restarted_app = start_measurement (51 / 50) (51 / 50) started_app"

definition first_final_app :: app where
  "first_final_app =
     timer_fires (401 / 50) (timer_fires 8 (device_sends [''ANGLE:10.0''] restarted_app))"

definition second_final_app :: app where
  "second_final_app = timer_fires (161 / 20) (device_sends [''ANGLE:20.0''] first_final_app)"

text \<open>
  "Elbow Flexion", unaffected, measured at 60.0: the button, Start at 0, the device's
  answer, and the callback at the deadline.
\<close>

definition elbow_measured_app :: app where
  "elbow_measured_app =
     timer_fires 7
       (device_sends [''ANGLE:60.0'']
          (start_measurement 0 0
             (select_movement ''x'' ''Elbow Flexion'' 4 Unaffected
                (connect_bluetooth init_app))))"

section \<open>What each operation leaves unchanged\<close>

lemma showerror_fields [simp]:
  "ser (showerror m s) = ser s"
  "movement_letter (showerror m s) = movement_letter s"
  "selected_movement (showerror m s) = selected_movement s"
  "selected_side (showerror m s) = selected_side s"
  "serial_read_start_time (showerror m s) = serial_read_start_time s"
  "serial_full_response (showerror m s) = serial_full_response s"
  "serial_read_duration (showerror m s) = serial_read_duration s"
  "serial_read_mode (showerror m s) = serial_read_mode s"
  "unaffected_angle_entries (showerror m s) = unaffected_angle_entries s"
  "affected_angle_entries (showerror m s) = affected_angle_entries s"
  "unaffected_rom_canvases (showerror m s) = unaffected_rom_canvases s"
  "affected_rom_canvases (showerror m s) = affected_rom_canvases s"
  "live_canvas (showerror m s) = live_canvas s"
  "serial_output_box (showerror m s) = serial_output_box s"
  "messages (showerror m s) = messages s @ [m]"
  "after_queue (showerror m s) = after_queue s"
  by (simp_all add: showerror_def)

lemma update_live_angle_fields [simp]:
  "ser (update_live_angle a s) = ser s"
  "movement_letter (update_live_angle a s) = movement_letter s"
  "selected_movement (update_live_angle a s) = selected_movement s"
  "selected_side (update_live_angle a s) = selected_side s"
  "serial_read_start_time (update_live_angle a s) = serial_read_start_time s"
  "serial_full_response (update_live_angle a s) = serial_full_response s"
  "serial_read_duration (update_live_angle a s) = serial_read_duration s"
  "serial_read_mode (update_live_angle a s) = serial_read_mode s"
  "unaffected_angle_entries (update_live_angle a s) = unaffected_angle_entries s"
  "affected_angle_entries (update_live_angle a s) = affected_angle_entries s"
  "unaffected_rom_canvases (update_live_angle a s) = unaffected_rom_canvases s"
  "affected_rom_canvases (update_live_angle a s) = affected_rom_canvases s"
  "live_canvas (update_live_angle a s) = live_canvas s @ [a]"
  "serial_output_box (update_live_angle a s) = serial_output_box s"
  "messages (update_live_angle a s) = messages s"
  "after_queue (update_live_angle a s) = after_queue s"
  by (simp_all add: update_live_angle_def)

lemma drain_lines_frame:
  "ser (drain_lines ls s) = ser s \<and>
   movement_letter (drain_lines ls s) = movement_letter s \<and>
   selected_movement (drain_lines ls s) = selected_movement s \<and>
   selected_side (drain_lines ls s) = selected_side s \<and>
   serial_read_start_time (drain_lines ls s) = serial_read_start_time s \<and>
   serial_read_duration (drain_lines ls s) = serial_read_duration s \<and>
   serial_read_mode (drain_lines ls s) = serial_read_mode s \<and>
   unaffected_angle_entries (drain_lines ls s) = unaffected_angle_entries s \<and>
   affected_angle_entries (drain_lines ls s) = affected_angle_entries s \<and>
   unaffected_rom_canvases (drain_lines ls s) = unaffected_rom_canvases s \<and>
   affected_rom_canvases (drain_lines ls s) = affected_rom_canvases s \<and>
   messages (drain_lines ls s) = messages s \<and>
   after_queue (drain_lines ls s) = after_queue s"
  by (induction ls arbitrary: s) (simp_all add: Let_def split: option.splits)

lemma drain_lines_response:
  "serial_full_response (drain_lines ls s) =
     serial_full_response s @ concat (map (\<lambda>raw. py_strip raw @ [CHR 10]) ls)"
  by (induction ls arbitrary: s) (simp_all add: Let_def split: option.splits)

lemma drain_lines_live:
  "live_canvas (drain_lines ls s) =
     live_canvas s @ List.map_filter (\<lambda>raw. parse_live (py_strip raw)) ls"
  by (induction ls arbitrary: s) (simp_all add: Let_def split: option.splits)

lemma set_gauges_length: "length (fst (set_gauges cs i vs)) = length cs"
  by (induction cs i vs rule: set_gauges.induct) simp_all

lemma update_rom_display_frame:
  "ser (update_rom_display s) = ser s \<and>
   movement_letter (update_rom_display s) = movement_letter s \<and>
   selected_movement (update_rom_display s) = selected_movement s \<and>
   selected_side (update_rom_display s) = selected_side s \<and>
   serial_read_start_time (update_rom_display s) = serial_read_start_time s \<and>
   serial_full_response (update_rom_display s) = serial_full_response s \<and>
   serial_read_duration (update_rom_display s) = serial_read_duration s \<and>
   serial_read_mode (update_rom_display s) = serial_read_mode s \<and>
   unaffected_angle_entries (update_rom_display s) = unaffected_angle_entries s \<and>
   affected_angle_entries (update_rom_display s) = affected_angle_entries s \<and>
   live_canvas (update_rom_display s) = live_canvas s \<and>
   serial_output_box (update_rom_display s) = serial_output_box s \<and>
   after_queue (update_rom_display s) = after_queue s"
  by (simp add: update_rom_display_def Let_def split: option.splits prod.splits)


section \<open>ROM aggregation\<close>

text \<open>
  C1. For a side with eight angle entries, \<open>calculate_rom_side\<close> returns exactly
  wrist = slot 0 + slot 1, forearm = slot 2 + slot 3, elbow = (slot 4 + slot 5) / 2
  and wrist deviation = slot 6 + slot 7, where the value of a slot is the float its
  text denotes and 0.0 when the slot is unset (its text is empty or is not a
  float). Nothing is clamped or validated: negative values and values above 180
  go through. The slots 30, 40, 10, 20, 60, 80, 5, 15 give 70, 30, 70, 20. The
  result depends on the entries only, and refreshing the display leaves the
  entries as they are, so a repeated call gives the same result.
\<close>

theorem calculate_rom_side_formula:
  "length es = 8 \<Longrightarrow>
     calculate_rom_side es =
       Some \<lparr> rom_wrist = fadd (safe_float (es ! 0)) (safe_float (es ! 1)),
              rom_forearm = fadd (safe_float (es ! 2)) (safe_float (es ! 3)),
              rom_elbow = fhalf (fadd (safe_float (es ! 4)) (safe_float (es ! 5))),
              rom_wrist_deviation = fadd (safe_float (es ! 6)) (safe_float (es ! 7)) \<rparr>
     \<and> safe_float t = (case py_float t of None \<Rightarrow> Fin 0 | Some v \<Rightarrow> v)
     \<and> safe_float [] = Fin 0
     \<and> calculate_rom_side
           [''30.0'', ''40.0'', ''10.0'', ''20.0'', ''60.0'', ''80.0'', ''5.0'', ''15.0''] =
         Some \<lparr> rom_wrist = Fin 70, rom_forearm = Fin 30, rom_elbow = Fin 70,
                rom_wrist_deviation = Fin 20 \<rparr>
     \<and> calculate_rom_side
           [''-200.0'', ''-50.0'', ''500.0'', [], [], ''400.0'', [], ''-0.5''] =
         Some \<lparr> rom_wrist = Fin (- 250), rom_forearm = Fin 500, rom_elbow = Fin 200,
                rom_wrist_deviation = Fin (- 1 / 2) \<rparr>
     \<and> calculate_rom_side (unaffected_angle_entries (update_rom_display s)) =
         calculate_rom_side (unaffected_angle_entries s)
     \<and> calculate_rom_side (affected_angle_entries (update_rom_display s)) =
         calculate_rom_side (affected_angle_entries s)"
proof -
  assume len: "length es = 8"
  have general: "calculate_rom_side es =
       Some \<lparr> rom_wrist = fadd (safe_float (es ! 0)) (safe_float (es ! 1)),
              rom_forearm = fadd (safe_float (es ! 2)) (safe_float (es ! 3)),
              rom_elbow = fhalf (fadd (safe_float (es ! 4)) (safe_float (es ! 5))),
              rom_wrist_deviation = fadd (safe_float (es ! 6)) (safe_float (es ! 7)) \<rparr>"
    using len by (simp add: calculate_rom_side_def)
  have slot: "safe_float t = (case py_float t of None \<Rightarrow> Fin 0 | Some v \<Rightarrow> v)"
    by (simp add: safe_float_def split: option.splits)
  have unset: "safe_float [] = Fin 0"
    by code_simp
  have ex1: "calculate_rom_side
           [''30.0'', ''40.0'', ''10.0'', ''20.0'', ''60.0'', ''80.0'', ''5.0'', ''15.0''] =
         Some \<lparr> rom_wrist = Fin 70, rom_forearm = Fin 30, rom_elbow = Fin 70,
                rom_wrist_deviation = Fin 20 \<rparr>"
    by code_simp
  have ex2: "calculate_rom_side
           [''-200.0'', ''-50.0'', ''500.0'', [], [], ''400.0'', [], ''-0.5''] =
         Some \<lparr> rom_wrist = Fin (- 250), rom_forearm = Fin 500, rom_elbow = Fin 200,
                rom_wrist_deviation = Fin (- 1 / 2) \<rparr>"
    by code_simp
  show ?thesis
    using general slot unset ex1 ex2 update_rom_display_frame [of s] by simp
qed

theorem calculate_rom_side_formula_witness:
  "length [''42.3'', [], ''abc'', ''7'', ''60.0'', ''80.0'', ''inf'', ''1.5''] = 8
   \<and> calculate_rom_side [''42.3'', [], ''abc'', ''7'', ''60.0'', ''80.0'', ''inf'', ''1.5''] =
       Some \<lparr> rom_wrist = Fin (423 / 10), rom_forearm = Fin 7, rom_elbow = Fin 70,
              rom_wrist_deviation = PInf \<rparr>"
proof -
  have len: "length [''42.3'', [], ''abc'', ''7'', ''60.0'', ''80.0'', ''inf'', ''1.5''] = 8"
    by simp
  have vals:
    "safe_float ''42.3'' = Fin (423 / 10)" "safe_float [] = Fin 0"
    "safe_float ''abc'' = Fin 0" "safe_float ''7'' = Fin 7"
    "safe_float ''60.0'' = Fin 60" "safe_float ''80.0'' = Fin 80"
    "safe_float ''inf'' = PInf" "safe_float ''1.5'' = Fin (3 / 2)"
    by code_simp+
  show ?thesis
    using calculate_rom_side_formula [OF len] vals by simp
qed

section \<open>Formatting and reading back\<close>



















section \<open>The states of the standard scenario\<close>

lemma ready_app_eq:
  "ready_app =
     \<lparr> ser = Some \<lparr>is_open = True, in_lines = [], written = []\<rparr>,
       movement_letter = Some ''f'',
       selected_movement = Some 0,
       selected_side = Some Unaffected,
       serial_read_start_time = None,
       serial_full_response = [],
       serial_read_duration = 7000,
       serial_read_mode = Measurement,
       unaffected_angle_entries = [[], [], [], [], [], [], [], []],
       affected_angle_entries = [[], [], [], [], [], [], [], []],
       unaffected_rom_canvases = [Fin 0, Fin 0, Fin 0, Fin 0],
       affected_rom_canvases = [Fin 0, Fin 0, Fin 0, Fin 0],
       live_canvas = [],
       serial_output_box = ''Awaiting Movement Selection...'' @ [CHR 10],
       messages = [],
       after_queue = 0 \<rparr>"
  by (simp add: ready_app_def select_movement_def connect_bluetooth_def init_app_def
      numeral_eq_Suc)

lemma started_app_eq:
  "started_app =
     \<lparr> ser = Some \<lparr>is_open = True, in_lines = [], written = ''f''\<rparr>,
       movement_letter = Some ''f'',
       selected_movement = Some 0,
       selected_side = Some Unaffected,
       serial_read_start_time = Some 0,
       serial_full_response = [],
       serial_read_duration = 7000,
       serial_read_mode = Measurement,
       unaffected_angle_entries = [[], [], [], [], [], [], [], []],
       affected_angle_entries = [[], [], [], [], [], [], [], []],
       unaffected_rom_canvases = [Fin 0, Fin 0, Fin 0, Fin 0],
       affected_rom_canvases = [Fin 0, Fin 0, Fin 0, Fin 0],
       live_canvas = [],
       serial_output_box = [],
       messages = [],
       after_queue = 1 \<rparr>"
  by (simp add: started_app_def ready_app_eq start_measurement_def read_serial_live_def)

section \<open>One polling step\<close>

lemma read_serial_live_open:
  "ser s = Some p \<Longrightarrow> is_open p \<Longrightarrow> serial_read_start_time s = Some t0 \<Longrightarrow>
   read_serial_live now s =
     (let s1 = drain_lines (in_lines p) (s\<lparr>ser := Some (p\<lparr>in_lines := []\<rparr>)\<rparr>)
      in if (now - t0) * 1000 \<ge> serial_read_duration s
         then (if serial_read_mode s = Measurement then process_final_serial_data s1 else s1)
         else s1\<lparr>after_queue := Suc (after_queue s1)\<rparr>)"
  using drain_lines_frame [of "in_lines p" "s\<lparr>ser := Some (p\<lparr>in_lines := []\<rparr>)\<rparr>"]
  by (simp add: read_serial_live_def Let_def)

lemma process_final_no_angle:
  "parse_final (serial_full_response s) = None \<Longrightarrow>
   process_final_serial_data s = showerror NoAngleData s"
  by (simp add: process_final_serial_data_def)

section \<open>Preconditions of a start\<close>

text \<open>
  C6. \<open>start_measurement\<close> checks before it touches the device. Without an open
  channel it shows "Bluetooth not connected!" (\<open>NotConnected\<close>); with an open channel
  but no movement letter, movement index or side selected it shows "No movement
  selected!" (\<open>NoSelection\<close>). In both cases the resulting state is the old one with
  the dialog added: nothing is written to the channel, the start time, the buffer,
  the mode, the timer queue and the slots are as before, and the command returns,
  so it can be tried again.
\<close>

theorem start_measurement_preconditions:
  "(\<not> connected s \<longrightarrow> start_measurement t_start now s = showerror NotConnected s)
   \<and> (connected s \<and>
        (movement_letter s = None \<or> selected_movement s = None \<or> selected_side s = None)
      \<longrightarrow> start_measurement t_start now s = showerror NoSelection s)
   \<and> ser (showerror m s) = ser s
   \<and> serial_read_start_time (showerror m s) = serial_read_start_time s
   \<and> serial_full_response (showerror m s) = serial_full_response s
   \<and> serial_read_mode (showerror m s) = serial_read_mode s
   \<and> after_queue (showerror m s) = after_queue s
   \<and> unaffected_angle_entries (showerror m s) = unaffected_angle_entries s
   \<and> affected_angle_entries (showerror m s) = affected_angle_entries s
   \<and> messages (showerror m s) = messages s @ [m]"
proof -
  have a: "\<not> connected s \<longrightarrow> start_measurement t_start now s = showerror NotConnected s"
    by (simp add: connected_def start_measurement_def split: option.splits)
  have b: "connected s \<and>
        (movement_letter s = None \<or> selected_movement s = None \<or> selected_side s = None)
      \<longrightarrow> start_measurement t_start now s = showerror NoSelection s"
    by (auto simp: connected_def start_measurement_def split: option.splits)
  show ?thesis using a b by simp
qed

theorem start_measurement_preconditions_witness:
  "\<not> connected init_app
   \<and> start_measurement 0 0 init_app = showerror NotConnected init_app
   \<and> connected (connect_bluetooth init_app)
   \<and> movement_letter (connect_bluetooth init_app) = None
   \<and> start_measurement 0 0 (connect_bluetooth init_app) =
       showerror NoSelection (connect_bluetooth init_app)
   \<and> messages (start_measurement 1 1 (start_measurement 0 0 (connect_bluetooth init_app))) =
       [NoSelection, NoSelection]"
proof -
  have c0: "\<not> connected init_app"
    by (simp add: connected_def init_app_def)
  have c1: "connected (connect_bluetooth init_app)"
    by (simp add: connected_def connect_bluetooth_def)
  have n1: "movement_letter (connect_bluetooth init_app) = None"
    by (simp add: connect_bluetooth_def init_app_def)
  have c2: "connected (showerror NoSelection (connect_bluetooth init_app))"
    by (simp add: connected_def connect_bluetooth_def)
  have n2: "movement_letter (showerror NoSelection (connect_bluetooth init_app)) = None"
    by (simp add: connect_bluetooth_def init_app_def)
  have m0: "messages (connect_bluetooth init_app) = []"
    by (simp add: connect_bluetooth_def init_app_def)
  show ?thesis
    using c0 c1 n1 c2 n2 m0
      start_measurement_preconditions [of init_app 0 0 NotConnected]
      start_measurement_preconditions [of "connect_bluetooth init_app" 0 0 NoSelection]
      start_measurement_preconditions
        [of "showerror NoSelection (connect_bluetooth init_app)" 1 1 NoSelection]
    by simp
qed

section \<open>A session without angle data\<close>

text \<open>
  C5. A polling step of a measurement session at or after the deadline
  (\<open>(now - start) * 1000 \<ge> 7000\<close>), when the accumulated response together with
  the lines just drained holds no line from which an angle is parsed, shows "No
  valid ANGLE data found!" (\<open>NoAngleData\<close>), writes no slot on either side and
  registers no further timer callback: the session ends there. That covers the
  device that never answers, whose response is empty.
\<close>

theorem no_angle_data_at_deadline:
  assumes "ser s = Some p" and "is_open p"
    and "serial_read_mode s = Measurement"
    and "serial_read_start_time s = Some t0"
    and "(now - t0) * 1000 \<ge> serial_read_duration s"
    and "parse_final (serial_full_response s
            @ concat (map (\<lambda>raw. py_strip raw @ [CHR 10]) (in_lines p))) = None"
  shows "read_serial_live now s =
           showerror NoAngleData
             (drain_lines (in_lines p) (s\<lparr>ser := Some (p\<lparr>in_lines := []\<rparr>)\<rparr>))
         \<and> messages (read_serial_live now s) = messages s @ [NoAngleData]
         \<and> unaffected_angle_entries (read_serial_live now s) = unaffected_angle_entries s
         \<and> affected_angle_entries (read_serial_live now s) = affected_angle_entries s
         \<and> after_queue (read_serial_live now s) = after_queue s
         \<and> parse_final [] = None"
proof -
  let ?s1 = "drain_lines (in_lines p) (s\<lparr>ser := Some (p\<lparr>in_lines := []\<rparr>)\<rparr>)"
  have buf: "parse_final (serial_full_response ?s1) = None"
    using assms(6) by (simp add: drain_lines_response)
  have eq: "read_serial_live now s = showerror NoAngleData ?s1"
    using assms(1-5) buf by (simp add: read_serial_live_open process_final_no_angle)
  have fr: "messages ?s1 = messages s" "unaffected_angle_entries ?s1 = unaffected_angle_entries s"
    "affected_angle_entries ?s1 = affected_angle_entries s" "after_queue ?s1 = after_queue s"
    using drain_lines_frame [of "in_lines p" "s\<lparr>ser := Some (p\<lparr>in_lines := []\<rparr>)\<rparr>"]
    by simp_all
  have e: "parse_final [] = None" by code_simp
  show ?thesis using eq fr e by simp
qed

theorem no_angle_data_at_deadline_witness:
  "messages (read_serial_live 7 started_app) = [NoAngleData]
   \<and> unaffected_angle_entries (read_serial_live 7 started_app) = replicate 8 []
   \<and> affected_angle_entries (read_serial_live 7 started_app) = replicate 8 []
   \<and> after_queue (read_serial_live 7 started_app) = 1
   \<and> messages (read_serial_live 9 (device_sends [''noise'', ''12.5''] started_app)) = [NoAngleData]
   \<and> unaffected_angle_entries (read_serial_live 9 (device_sends [''noise'', ''12.5''] started_app))
       = replicate 8 []"
proof -
  let ?p = "\<lparr>is_open = True, in_lines = [], written = ''f''\<rparr>"
  let ?q = "\<lparr>is_open = True, in_lines = [''noise'', ''12.5''], written = ''f''\<rparr>"
  let ?s = "device_sends [''noise'', ''12.5''] started_app"
  have a1: "ser started_app = Some ?p" and a2: "is_open ?p"
    and a3: "serial_read_mode started_app = Measurement"
    and a4: "serial_read_start_time started_app = Some 0"
    and a5: "(7 - 0) * 1000 \<ge> serial_read_duration started_app"
    by (simp_all add: started_app_eq)
  have a6: "parse_final (serial_full_response started_app
            @ concat (map (\<lambda>raw. py_strip raw @ [CHR 10]) (in_lines ?p))) = None"
    unfolding started_app_eq by code_simp
  have b1: "ser ?s = Some ?q" and b2: "is_open ?q"
    and b3: "serial_read_mode ?s = Measurement"
    and b4: "serial_read_start_time ?s = Some 0"
    and b5: "(9 - 0) * 1000 \<ge> serial_read_duration ?s"
    by (simp_all add: started_app_eq device_sends_def)
  have b6: "parse_final (serial_full_response ?s
            @ concat (map (\<lambda>raw. py_strip raw @ [CHR 10]) (in_lines ?q))) = None"
    unfolding started_app_eq device_sends_def by code_simp
  have m: "messages started_app = []" "messages ?s = []"
    "unaffected_angle_entries started_app = replicate 8 []"
    "affected_angle_entries started_app = replicate 8 []"
    "unaffected_angle_entries ?s = replicate 8 []"
    "after_queue started_app = 1"
    by (simp_all add: started_app_eq device_sends_def numeral_eq_Suc)
  have w1: "messages (read_serial_live 7 started_app) = messages started_app @ [NoAngleData]"
    "unaffected_angle_entries (read_serial_live 7 started_app) = unaffected_angle_entries started_app"
    "affected_angle_entries (read_serial_live 7 started_app) = affected_angle_entries started_app"
    "after_queue (read_serial_live 7 started_app) = after_queue started_app"
    using no_angle_data_at_deadline [OF a1 a2 a3 a4 a5 a6] by blast+
  have w2: "messages (read_serial_live 9 ?s) = messages ?s @ [NoAngleData]"
    "unaffected_angle_entries (read_serial_live 9 ?s) = unaffected_angle_entries ?s"
    using no_angle_data_at_deadline [OF b1 b2 b3 b4 b5 b6] by blast+
  show ?thesis
    by (simp only: w1 w2 m append_Nil simp_thms)
qed

lemma read_serial_live_entries_calibration:
  assumes "serial_read_mode u = Calibration"
  shows "unaffected_angle_entries (read_serial_live now u) = unaffected_angle_entries u
       \<and> affected_angle_entries (read_serial_live now u) = affected_angle_entries u
       \<and> unaffected_rom_canvases (read_serial_live now u) = unaffected_rom_canvases u
       \<and> affected_rom_canvases (read_serial_live now u) = affected_rom_canvases u
       \<and> messages (read_serial_live now u) = messages u"
proof (cases "ser u")
  case None
  then show ?thesis by (simp add: read_serial_live_def)
next
  case (Some q)
  let ?d = "drain_lines (in_lines q) (u\<lparr>ser := Some (q\<lparr>in_lines := []\<rparr>)\<rparr>)"
  have fr: "serial_read_mode ?d = Calibration"
    "unaffected_angle_entries ?d = unaffected_angle_entries u"
    "affected_angle_entries ?d = affected_angle_entries u"
    "unaffected_rom_canvases ?d = unaffected_rom_canvases u"
    "affected_rom_canvases ?d = affected_rom_canvases u"
    "messages ?d = messages u"
    using drain_lines_frame [of "in_lines q" "u\<lparr>ser := Some (q\<lparr>in_lines := []\<rparr>)\<rparr>"] assms
    by simp_all
  show ?thesis
    using Some fr by (simp add: read_serial_live_def Let_def split: option.splits)
qed

section \<open>Calibration\<close>

text \<open>
  C7. On an open channel \<open>calibrate\<close> writes the single byte \<^verbatim>\<open>r\<close>, whatever
  movement is or is not selected, records the start time and sets the mode to
  calibration; it writes no slot. A polling step in calibration mode never
  finalizes: at any time it leaves the slots of both sides, the ROM gauges and the
  dialogs as they are, and at or after the deadline it is the draining of the
  waiting lines and nothing else, with no new timer callback.
\<close>

theorem calibration_never_finalizes:
  assumes "ser s = Some p" and "is_open p"
  shows "ser (calibrate t_start now s) = Some (p\<lparr>in_lines := [], written := written p @ ''r''\<rparr>)
       \<and> serial_read_mode (calibrate t_start now s) = Calibration
       \<and> serial_read_start_time (calibrate t_start now s) = Some t_start
       \<and> unaffected_angle_entries (calibrate t_start now s) = unaffected_angle_entries s
       \<and> affected_angle_entries (calibrate t_start now s) = affected_angle_entries s
       \<and> unaffected_rom_canvases (calibrate t_start now s) = unaffected_rom_canvases s
       \<and> affected_rom_canvases (calibrate t_start now s) = affected_rom_canvases s
       \<and> messages (calibrate t_start now s) = messages s
       \<and> (serial_read_mode u = Calibration \<longrightarrow>
            unaffected_angle_entries (timer_fires now' u) = unaffected_angle_entries u
          \<and> affected_angle_entries (timer_fires now' u) = affected_angle_entries u
          \<and> unaffected_rom_canvases (timer_fires now' u) = unaffected_rom_canvases u
          \<and> affected_rom_canvases (timer_fires now' u) = affected_rom_canvases u
          \<and> messages (timer_fires now' u) = messages u)
       \<and> (serial_read_mode u = Calibration \<and> ser u = Some q \<and> is_open q
            \<and> serial_read_start_time u = Some t0
            \<and> (now' - t0) * 1000 \<ge> serial_read_duration u \<longrightarrow>
            read_serial_live now' u =
              drain_lines (in_lines q) (u\<lparr>ser := Some (q\<lparr>in_lines := []\<rparr>)\<rparr>)
          \<and> after_queue (read_serial_live now' u) = after_queue u)"
proof -
  let ?c = "s\<lparr>ser := Some (p\<lparr>in_lines := [], written := written p @ ''r''\<rparr>),
                 serial_output_box := [],
                 serial_read_start_time := Some t_start,
                 serial_full_response := [],
                 serial_read_mode := Calibration\<rparr>"
  have cal: "calibrate t_start now s = read_serial_live now ?c"
    using assms by (simp add: calibrate_def)
  have live: "read_serial_live now ?c =
      (if (now - t_start) * 1000 \<ge> serial_read_duration s then ?c
       else ?c\<lparr>after_queue := Suc (after_queue s)\<rparr>)"
    using assms by (simp add: read_serial_live_def)
  have first: "ser (calibrate t_start now s) = Some (p\<lparr>in_lines := [], written := written p @ ''r''\<rparr>)
       \<and> serial_read_mode (calibrate t_start now s) = Calibration
       \<and> serial_read_start_time (calibrate t_start now s) = Some t_start
       \<and> unaffected_angle_entries (calibrate t_start now s) = unaffected_angle_entries s
       \<and> affected_angle_entries (calibrate t_start now s) = affected_angle_entries s
       \<and> unaffected_rom_canvases (calibrate t_start now s) = unaffected_rom_canvases s
       \<and> affected_rom_canvases (calibrate t_start now s) = affected_rom_canvases s
       \<and> messages (calibrate t_start now s) = messages s"
    by (simp add: cal live)
  have tick: "serial_read_mode u = Calibration \<longrightarrow>
            unaffected_angle_entries (timer_fires now' u) = unaffected_angle_entries u
          \<and> affected_angle_entries (timer_fires now' u) = affected_angle_entries u
          \<and> unaffected_rom_canvases (timer_fires now' u) = unaffected_rom_canvases u
          \<and> affected_rom_canvases (timer_fires now' u) = affected_rom_canvases u
          \<and> messages (timer_fires now' u) = messages u"
    using read_serial_live_entries_calibration [of "u\<lparr>after_queue := after_queue u - 1\<rparr>" now']
    by (simp add: timer_fires_def)
  have ends: "serial_read_mode u = Calibration \<and> ser u = Some q \<and> is_open q
            \<and> serial_read_start_time u = Some t0
            \<and> (now' - t0) * 1000 \<ge> serial_read_duration u \<longrightarrow>
            read_serial_live now' u =
              drain_lines (in_lines q) (u\<lparr>ser := Some (q\<lparr>in_lines := []\<rparr>)\<rparr>)
          \<and> after_queue (read_serial_live now' u) = after_queue u"
    using drain_lines_frame [of "in_lines q" "u\<lparr>ser := Some (q\<lparr>in_lines := []\<rparr>)\<rparr>"]
    by (simp add: read_serial_live_open)
  show ?thesis using first tick ends by blast
qed

theorem calibration_never_finalizes_witness:
  "ser (calibrate 0 0 (connect_bluetooth init_app)) =
      Some \<lparr>is_open = True, in_lines = [], written = ''r''\<rparr>
   \<and> serial_read_mode (calibrate 0 0 (connect_bluetooth init_app)) = Calibration
   \<and> unaffected_angle_entries
        (timer_fires 7 (device_sends [''ANGLE:33.0''] (calibrate 0 0 (connect_bluetooth init_app))))
       = replicate 8 []
   \<and> messages
        (timer_fires 7 (device_sends [''ANGLE:33.0''] (calibrate 0 0 (connect_bluetooth init_app))))
       = []
   \<and> after_queue
        (read_serial_live 7 (device_sends [''ANGLE:33.0''] (calibrate 0 0 (connect_bluetooth init_app))))
       = 1"
proof -
  let ?s = "connect_bluetooth init_app"
  let ?p = "\<lparr>is_open = True, in_lines = [], written = []\<rparr>"
  let ?u = "device_sends [''ANGLE:33.0''] (calibrate 0 0 ?s)"
  let ?q = "\<lparr>is_open = True, in_lines = [''ANGLE:33.0''], written = ''r''\<rparr>"
  have a1: "ser ?s = Some ?p" and a2: "is_open ?p"
    by (simp_all add: connect_bluetooth_def)
  have cal: "calibrate 0 0 ?s =
      ?s\<lparr>ser := Some \<lparr>is_open = True, in_lines = [], written = ''r''\<rparr>,
         serial_output_box := [], serial_read_start_time := Some 0,
         serial_full_response := [], serial_read_mode := Calibration,
         after_queue := 1\<rparr>"
    by (simp add: calibrate_def connect_bluetooth_def init_app_def read_serial_live_def)
  have u: "serial_read_mode ?u = Calibration" "ser ?u = Some ?q" "is_open ?q"
    "serial_read_start_time ?u = Some 0" "(7 - 0) * 1000 \<ge> serial_read_duration ?u"
    "unaffected_angle_entries ?u = replicate 8 []" "messages ?u = []" "after_queue ?u = 1"
    unfolding cal by (simp_all add: device_sends_def connect_bluetooth_def init_app_def)
  note w = calibration_never_finalizes [OF a1 a2, of 0 0 ?u 7 ?q 0]
  have w1: "ser (calibrate 0 0 ?s) = Some (?p\<lparr>in_lines := [], written := written ?p @ ''r''\<rparr>)"
    "serial_read_mode (calibrate 0 0 ?s) = Calibration"
    using w by blast+
  have w2: "unaffected_angle_entries (timer_fires 7 ?u) = unaffected_angle_entries ?u"
    "messages (timer_fires 7 ?u) = messages ?u"
    using w u(1) by blast+
  have w3: "after_queue (read_serial_live 7 ?u) = after_queue ?u"
    using w u(1-5) by blast
  show ?thesis
    using w1 by (simp add: w2 w3 u(6-8))
qed

section \<open>The live parse\<close>

text \<open>
  C8. \<open>parse_live\<close> is a total function: on a line it gives the float that the line
  denotes, and \<open>None\<close> where \<^verbatim>\<open>float\<close> raises ValueError, which the source
  catches; so "93.5" gives 93.5, and "ANGLE:93.5" and the empty line give nothing.
  A line that gives nothing does not end the polling: draining appends every
  stripped line to the accumulated response, draws exactly the lines that parse on
  the live canvas, shows no dialog, and leaves the timer queue, the start time and
  the mode untouched.
\<close>

theorem parse_live_never_aborts:
  "parse_live ''93.5'' = Some (Fin (187 / 2))
   \<and> parse_live ''ANGLE:93.5'' = None
   \<and> parse_live [] = None
   \<and> parse_live line = py_float line
   \<and> serial_full_response (drain_lines ls s) =
       serial_full_response s @ concat (map (\<lambda>raw. py_strip raw @ [CHR 10]) ls)
   \<and> live_canvas (drain_lines ls s) =
       live_canvas s @ List.map_filter (\<lambda>raw. parse_live (py_strip raw)) ls
   \<and> messages (drain_lines ls s) = messages s
   \<and> after_queue (drain_lines ls s) = after_queue s
   \<and> serial_read_start_time (drain_lines ls s) = serial_read_start_time s
   \<and> serial_read_mode (drain_lines ls s) = serial_read_mode s"
proof -
  have a: "parse_live ''93.5'' = Some (Fin (187 / 2))" by code_simp
  have b: "parse_live ''ANGLE:93.5'' = None" by code_simp
  have c: "parse_live [] = None" by code_simp
  show ?thesis
    using a b c drain_lines_frame [of ls s]
    by (simp add: drain_lines_response drain_lines_live parse_live_def)
qed

section \<open>The final parse\<close>

lemma scan_lines_filter:
  "scan_lines ls =
     (case filter (\<lambda>l. tagged_angle l \<noteq> None) ls of [] \<Rightarrow> None | l # _ \<Rightarrow> tagged_angle l)"
  by (induction ls) (auto split: option.splits)

lemma scan_lines_None: "scan_lines ls = None \<longleftrightarrow> (\<forall>l \<in> set ls. tagged_angle l = None)"
  by (induction ls) (auto split: option.splits)

lemma tagged_angle_marker: "tagged_angle l = Some v \<Longrightarrow> py_in ''ANGLE:'' l"
  by (simp add: tagged_angle_def split: if_splits)

lemma scan_first_tagged_Some:
  "scan_first_tagged ls = Some v \<Longrightarrow> scan_lines ls = Some v"
  by (induction ls) (auto split: option.splits if_splits dest: tagged_angle_marker)

text \<open>
  C2, as stated, fails: when the last line that contains the marker does not parse,
  the source does not give up but goes on to the earlier lines. On the lines
  "ANGLE:12.0", "ANGLE:abc" the final parse is 12.0, where the statement gives
  nothing.
\<close>

theorem parse_final_spec_counterexample:
  "parse_final (''ANGLE:12.0'' @ [CHR 10] @ ''ANGLE:abc'' @ [CHR 10]) = Some (Fin 12)
   \<and> parse_final_spec (''ANGLE:12.0'' @ [CHR 10] @ ''ANGLE:abc'' @ [CHR 10]) = None"
  by code_simp

text \<open>
  C2, amended. \<open>parse_final\<close> scans the lines of the accumulated response from the
  last to the first and returns the float parsed after the marker on the first line
  met that contains the marker and whose text after the marker parses; a tagged line
  that does not parse is skipped. The result is \<open>None\<close> exactly when no line
  gives an angle. Whenever the reading of the specification yields a value, the
  source yields the same one. The lines "junk", "ANGLE:12.0", "ANGLE:45.5" give
  45.5, and "no angle here" gives nothing.
\<close>

theorem parse_final_last_parseable:
  "parse_final buffer =
     (case filter (\<lambda>l. tagged_angle l \<noteq> None) (rev (response_lines buffer)) of
        [] \<Rightarrow> None
      | l # _ \<Rightarrow> tagged_angle l)
   \<and> (parse_final buffer = None \<longleftrightarrow> (\<forall>l \<in> set (response_lines buffer). tagged_angle l = None))
   \<and> (parse_final_spec buffer = Some v \<longrightarrow> parse_final buffer = Some v)
   \<and> parse_final (''junk'' @ [CHR 10] @ ''ANGLE:12.0'' @ [CHR 10] @ ''ANGLE:45.5'' @ [CHR 10])
       = Some (Fin (91 / 2))
   \<and> parse_final ''no angle here'' = None"
proof -
  have a: "parse_final buffer =
     (case filter (\<lambda>l. tagged_angle l \<noteq> None) (rev (response_lines buffer)) of
        [] \<Rightarrow> None
      | l # _ \<Rightarrow> tagged_angle l)"
    by (simp add: parse_final_def response_lines_def scan_lines_filter)
  have b: "parse_final buffer = None \<longleftrightarrow> (\<forall>l \<in> set (response_lines buffer). tagged_angle l = None)"
    by (simp add: parse_final_def response_lines_def scan_lines_None)
  have c: "parse_final_spec buffer = Some v \<longrightarrow> parse_final buffer = Some v"
    by (simp add: parse_final_def parse_final_spec_def scan_first_tagged_Some)
  have d: "parse_final (''junk'' @ [CHR 10] @ ''ANGLE:12.0'' @ [CHR 10] @ ''ANGLE:45.5'' @ [CHR 10])
       = Some (Fin (91 / 2))"
    by code_simp
  have e: "parse_final ''no angle here'' = None"
    by code_simp
  show ?thesis using a b c d e by blast
qed

theorem parse_final_last_parseable_witness:
  "parse_final_spec (''ANGLE:7.5'' @ [CHR 10] @ ''done'') = Some (Fin (15 / 2))
   \<and> parse_final (''ANGLE:7.5'' @ [CHR 10] @ ''done'') = Some (Fin (15 / 2))
   \<and> response_lines (''abc'' @ [CHR 10] @ ''12.5'') = [''abc'', ''12.5'']
   \<and> tagged_angle ''abc'' = None
   \<and> tagged_angle ''12.5'' = None
   \<and> parse_final (''abc'' @ [CHR 10] @ ''12.5'') = None"
proof -
  have s: "parse_final_spec (''ANGLE:7.5'' @ [CHR 10] @ ''done'') = Some (Fin (15 / 2))"
    by code_simp
  have l: "response_lines (''abc'' @ [CHR 10] @ ''12.5'') = [''abc'', ''12.5'']"
    by code_simp
  have t: "tagged_angle ''abc'' = None" "tagged_angle ''12.5'' = None"
    by code_simp+
  have n: "\<forall>l \<in> set (response_lines (''abc'' @ [CHR 10] @ ''12.5'')). tagged_angle l = None"
    unfolding l using t by simp
  have w1: "parse_final (''ANGLE:7.5'' @ [CHR 10] @ ''done'') = Some (Fin (15 / 2))"
    using parse_final_last_parseable [of "''ANGLE:7.5'' @ [CHR 10] @ ''done''" "Fin (15 / 2)"] s
    by blast
  have w2: "parse_final (''abc'' @ [CHR 10] @ ''12.5'') = None"
    using parse_final_last_parseable [of "''abc'' @ [CHR 10] @ ''12.5''"] n
    by blast
  show ?thesis using s l t w1 w2 by blast
qed

section \<open>A successful finalize\<close>








section \<open>What a finalize records\<close>






section \<open>A start during a running session\<close>

lemma start_measurement_open:
  assumes "ser s = Some p" and "is_open p"
    and "movement_letter s = Some letter" and "selected_movement s = Some i"
    and "selected_side s = Some sd"
    and "(now0 - t_start) * 1000 < serial_read_duration s"
  shows "start_measurement t_start now0 s =
           s\<lparr>ser := Some (p\<lparr>in_lines := [], written := written p @ letter\<rparr>),
              serial_output_box := [],
              serial_read_start_time := Some t_start,
              serial_full_response := [],
              serial_read_mode := Measurement,
              after_queue := Suc (after_queue s)\<rparr>"
  using assms by (simp add: start_measurement_def read_serial_live_def)

lemma timer_fires_idle:
  assumes "ser s = Some p" and "is_open p" and "in_lines p = []"
    and "serial_read_start_time s = Some t0"
    and "(now - t0) * 1000 < serial_read_duration s"
    and "0 < after_queue s"
  shows "timer_fires now s = s"
proof -
  have "p\<lparr>in_lines := []\<rparr> = p" using assms(3) by simp
  then show ?thesis
    using assms by (simp add: timer_fires_def read_serial_live_def)
qed

text \<open>
  C4, as stated, fails: nothing blocks a queued callback of the superseded session.
  After the second start two callbacks are queued. The callback at 8.02 s finalizes
  the new session and writes "10.0" into the slot; one callback is still queued, and
  when it runs at 8.05 s it finalizes again and overwrites the slot with "20.0".
\<close>

theorem stale_tick_overwrites_counterexample:
  "after_queue started_app = 1
   \<and> after_queue restarted_app = 2
   \<and> serial_read_start_time restarted_app = Some (51 / 50)
   \<and> unaffected_angle_entries first_final_app ! 0 = ''10.0''
   \<and> after_queue first_final_app = 1
   \<and> unaffected_angle_entries second_final_app ! 0 = ''20.0''
   \<and> after_queue second_final_app = 0"
  by code_simp

text \<open>
  C4, amended. The source has no instance or generation guard and a start cancels
  nothing: the callbacks registered by the previous session stay queued, next to
  the new one. What a start does is reset the shared start time and the shared
  buffer. So a queued callback of the superseded session that runs before the
  deadline of the new session writes no slot and registers itself again; and one
  that runs at or after that deadline finalizes like any other callback, from the
  lines received since the new start, into the slot selected at that moment.
\<close>

theorem new_start_keeps_queued_ticks:
  assumes "ser s = Some p" and "is_open p"
    and "movement_letter s = Some letter" and "selected_movement s = Some i"
    and "selected_side s = Some sd"
    and "(now0 - t_start) * 1000 < serial_read_duration s"
  shows "after_queue (start_measurement t_start now0 s) = Suc (after_queue s)
       \<and> serial_read_start_time (start_measurement t_start now0 s) = Some t_start
       \<and> serial_full_response (start_measurement t_start now0 s) = []
       \<and> ((now - t_start) * 1000 < serial_read_duration s \<longrightarrow>
            unaffected_angle_entries
              (timer_fires now (device_sends ls (start_measurement t_start now0 s)))
              = unaffected_angle_entries s
          \<and> affected_angle_entries
              (timer_fires now (device_sends ls (start_measurement t_start now0 s)))
              = affected_angle_entries s
          \<and> after_queue
              (timer_fires now (device_sends ls (start_measurement t_start now0 s)))
              = Suc (after_queue s))
       \<and> ((now - t_start) * 1000 \<ge> serial_read_duration s \<longrightarrow>
            timer_fires now (device_sends ls (start_measurement t_start now0 s)) =
              process_final_serial_data
                (drain_lines ls
                   ((start_measurement t_start now0 s)\<lparr>after_queue := after_queue s\<rparr>)))"
proof -
  let ?p' = "p\<lparr>in_lines := [], written := written p @ letter\<rparr>"
  let ?s' = "s\<lparr>ser := Some ?p',
              serial_output_box := [],
              serial_read_start_time := Some t_start,
              serial_full_response := [],
              serial_read_mode := Measurement,
              after_queue := Suc (after_queue s)\<rparr>"
  let ?u = "(device_sends ls ?s')\<lparr>after_queue := after_queue s\<rparr>"
  have st: "start_measurement t_start now0 s = ?s'"
    using assms by (rule start_measurement_open)
  have tf: "timer_fires now (device_sends ls ?s') = read_serial_live now ?u"
    using assms(2) by (simp add: timer_fires_def device_sends_def)
  have u: "ser ?u = Some (?p'\<lparr>in_lines := ls\<rparr>)" "is_open (?p'\<lparr>in_lines := ls\<rparr>)"
    "serial_read_start_time ?u = Some t_start" "serial_read_duration ?u = serial_read_duration s"
    "serial_read_mode ?u = Measurement"
    using assms(2) by (simp_all add: device_sends_def)
  have dr: "?u\<lparr>ser := Some (?p'\<lparr>in_lines := ls\<rparr>\<lparr>in_lines := []\<rparr>)\<rparr> = ?s'\<lparr>after_queue := after_queue s\<rparr>"
    using assms(2) by (simp add: device_sends_def)
  note fr = drain_lines_frame [of ls "?s'\<lparr>after_queue := after_queue s\<rparr>"]
  have live: "read_serial_live now ?u =
      (let s1 = drain_lines ls (?s'\<lparr>after_queue := after_queue s\<rparr>)
       in if (now - t_start) * 1000 \<ge> serial_read_duration s
          then process_final_serial_data s1
          else s1\<lparr>after_queue := Suc (after_queue s1)\<rparr>)"
    using read_serial_live_open [OF u(1,2,3), of now] dr by (simp add: u(4,5) Let_def)
  have a: "after_queue (start_measurement t_start now0 s) = Suc (after_queue s)
       \<and> serial_read_start_time (start_measurement t_start now0 s) = Some t_start
       \<and> serial_full_response (start_measurement t_start now0 s) = []"
    by (simp add: st)
  have b: "(now - t_start) * 1000 < serial_read_duration s \<longrightarrow>
            unaffected_angle_entries
              (timer_fires now (device_sends ls (start_measurement t_start now0 s)))
              = unaffected_angle_entries s
          \<and> affected_angle_entries
              (timer_fires now (device_sends ls (start_measurement t_start now0 s)))
              = affected_angle_entries s
          \<and> after_queue
              (timer_fires now (device_sends ls (start_measurement t_start now0 s)))
              = Suc (after_queue s)"
    unfolding st tf live using fr by (simp add: Let_def)
  have c: "(now - t_start) * 1000 \<ge> serial_read_duration s \<longrightarrow>
            timer_fires now (device_sends ls (start_measurement t_start now0 s)) =
              process_final_serial_data
                (drain_lines ls
                   ((start_measurement t_start now0 s)\<lparr>after_queue := after_queue s\<rparr>))"
    unfolding st tf live by (simp add: Let_def)
  show ?thesis using a b c by blast
qed

theorem new_start_keeps_queued_ticks_witness:
  "after_queue (start_measurement (51 / 50) (51 / 50) started_app) = 2
   \<and> unaffected_angle_entries
        (timer_fires 8 (device_sends [''ANGLE:10.0''] (start_measurement (51 / 50) (51 / 50) started_app)))
       = replicate 8 []
   \<and> timer_fires (401 / 50)
        (device_sends [''ANGLE:10.0''] (start_measurement (51 / 50) (51 / 50) started_app)) =
       process_final_serial_data
         (drain_lines [''ANGLE:10.0'']
            ((start_measurement (51 / 50) (51 / 50) started_app)\<lparr>after_queue := 1\<rparr>))"
proof -
  let ?p = "\<lparr>is_open = True, in_lines = [], written = ''f''\<rparr>"
  have a: "ser started_app = Some ?p" "is_open ?p" "movement_letter started_app = Some ''f''"
    "selected_movement started_app = Some 0" "selected_side started_app = Some Unaffected"
    "(51 / 50 - 51 / 50) * 1000 < serial_read_duration started_app"
    by (simp_all add: started_app_eq)
  have b: "(8 - 51 / 50) * 1000 < serial_read_duration started_app"
    "(401 / 50 - 51 / 50) * 1000 \<ge> serial_read_duration started_app"
    "after_queue started_app = 1"
    "unaffected_angle_entries started_app = replicate 8 []"
    by (simp_all add: started_app_eq numeral_eq_Suc)
  note w8 = new_start_keeps_queued_ticks [OF a, of 8 "[''ANGLE:10.0'']"]
  note wd = new_start_keeps_queued_ticks [OF a, of "401 / 50" "[''ANGLE:10.0'']"]
  have r1: "after_queue (start_measurement (51 / 50) (51 / 50) started_app) = Suc (after_queue started_app)"
    using w8 by blast
  have r2: "unaffected_angle_entries
        (timer_fires 8 (device_sends [''ANGLE:10.0''] (start_measurement (51 / 50) (51 / 50) started_app)))
       = unaffected_angle_entries started_app"
    using w8 b(1) by blast
  have r3: "timer_fires (401 / 50)
        (device_sends [''ANGLE:10.0''] (start_measurement (51 / 50) (51 / 50) started_app)) =
       process_final_serial_data
         (drain_lines [''ANGLE:10.0'']
            ((start_measurement (51 / 50) (51 / 50) started_app)\<lparr>after_queue := after_queue started_app\<rparr>))"
    using wd b(2) by blast
  show ?thesis
    using r1 r2 r3 unfolding b(3,4) by simp
qed

section \<open>Clear all\<close>

lemma clear_zip_shorter:
  "length cs \<le> length es \<Longrightarrow>
   clear_zip es cs = (replicate (length cs) [] @ drop (length cs) es, replicate (length cs) (Fin 0))"
  by (induction es cs rule: clear_zip.induct) simp_all

lemma clear_all_measurements_effect:
  assumes "widgets_ok s"
  shows "unaffected_angle_entries (clear_all_measurements s) =
           replicate 4 [] @ drop 4 (unaffected_angle_entries s)"
    and "affected_angle_entries (clear_all_measurements s) =
           replicate 4 [] @ drop 4 (affected_angle_entries s)"
    and "unaffected_rom_canvases (clear_all_measurements s) = replicate 4 (Fin 0)"
    and "affected_rom_canvases (clear_all_measurements s) = replicate 4 (Fin 0)"
    and "live_canvas (clear_all_measurements s) = live_canvas s @ [Fin 0]"
    and "ser (clear_all_measurements s) = ser s"
proof -
  have u: "clear_zip (unaffected_angle_entries s) (unaffected_rom_canvases s) =
      (replicate 4 [] @ drop 4 (unaffected_angle_entries s), replicate 4 (Fin 0))"
    using assms clear_zip_shorter [of "unaffected_rom_canvases s" "unaffected_angle_entries s"]
    by (simp add: widgets_ok_def)
  have a: "clear_zip (affected_angle_entries s) (affected_rom_canvases s) =
      (replicate 4 [] @ drop 4 (affected_angle_entries s), replicate 4 (Fin 0))"
    using assms clear_zip_shorter [of "affected_rom_canvases s" "affected_angle_entries s"]
    by (simp add: widgets_ok_def)
  show "unaffected_angle_entries (clear_all_measurements s) =
           replicate 4 [] @ drop 4 (unaffected_angle_entries s)"
    and "affected_angle_entries (clear_all_measurements s) =
           replicate 4 [] @ drop 4 (affected_angle_entries s)"
    and "unaffected_rom_canvases (clear_all_measurements s) = replicate 4 (Fin 0)"
    and "affected_rom_canvases (clear_all_measurements s) = replicate 4 (Fin 0)"
    and "live_canvas (clear_all_measurements s) = live_canvas s @ [Fin 0]"
    and "ser (clear_all_measurements s) = ser s"
    by (simp_all add: clear_all_measurements_def u a)
qed

text \<open>
  C9. The statement asks that clear-all empties all sixteen slots, so that the ROM
  recomputed afterwards is zero on both sides. The source pairs the eight entries of
  a side with its four gauges, so only the first four entries of each side are
  emptied. After "Elbow Flexion", unaffected, was measured at 60.0, clear-all leaves
  "60.0" in slot 4 and the elbow ROM recomputed from the slots is 30, while the
  gauges show 0. The channel is left as it was.
\<close>

theorem clear_all_keeps_elbow_slot:
  "unaffected_angle_entries elbow_measured_app = [[], [], [], [], ''60.0'', [], [], []]
   \<and> unaffected_angle_entries (clear_all_measurements elbow_measured_app) =
       [[], [], [], [], ''60.0'', [], [], []]
   \<and> calculate_rom_side (unaffected_angle_entries (clear_all_measurements elbow_measured_app)) =
       Some \<lparr>rom_wrist = Fin 0, rom_forearm = Fin 0, rom_elbow = Fin 30,
             rom_wrist_deviation = Fin 0\<rparr>
   \<and> unaffected_rom_canvases (clear_all_measurements elbow_measured_app) =
       [Fin 0, Fin 0, Fin 0, Fin 0]
   \<and> ser (clear_all_measurements elbow_measured_app) = ser elbow_measured_app"
  by code_simp

end
